theory Spec2Isabelle
  imports Main "HOL-Library.Sublist" "HOL-Library.Multiset"
begin

section \<open>Text\<close>

text \<open>
  A Python \<open>str\<close> is a sequence of Unicode code points; a code point is modelled as a
  natural number and a string as a list of them, so that \<open>len\<close>, slicing and \<open>in\<close>
  count what Python counts. \<open>ascii\<close> embeds an ASCII literal of the source.

  \<open>str.lower\<close> is Python's own and not part of the repository: the functions that call
  it take it as the parameter \<open>lower\<close>, a function from strings to strings (Python's
  lowercasing may change the length of a string, so it is not a map over characters).
  \<open>lower_ascii\<close> is the instance used to run the scenarios of the specification on
  ASCII text, where it agrees with Python.
\<close>

type_synonym codepoint = nat
type_synonym pystr = "codepoint list"

definition ascii :: "string \<Rightarrow> pystr" where
  "ascii s = map of_char s"

definition lower_ascii :: "pystr \<Rightarrow> pystr" where
  "lower_ascii s = map (\<lambda>c. if 65 \<le> c \<and> c \<le> 90 then c + 32 else c) s"

text \<open>\<open>needle in haystack\<close> on strings: the needle occurs as a contiguous run.\<close>

fun startswith :: "pystr \<Rightarrow> pystr \<Rightarrow> bool" where
  "startswith s [] = True"
| "startswith [] (p # ps) = False"
| "startswith (c # s) (p # ps) = (c = p \<and> startswith s ps)"

fun py_in :: "pystr \<Rightarrow> pystr \<Rightarrow> bool" where
  "py_in needle [] = (needle = [])"
| "py_in needle (c # s) = (startswith (c # s) needle \<or> py_in needle s)"

text \<open>\<open>x or ''\<close> on an optional string.\<close>

definition or_empty :: "pystr option \<Rightarrow> pystr" where
  "or_empty t = (case t of None \<Rightarrow> [] | Some s \<Rightarrow> s)"

section \<open>The keyword filter of \<open>message_handler\<close>\<close>

text \<open>
  \<^verbatim>\<open>
  should_forward = True
  if self.keywords:
      should_forward = any(keyword.lower() in message_text.lower()
                         for keyword in self.keywords)
  \<close>
\<close>

definition should_forward :: "(pystr \<Rightarrow> pystr) \<Rightarrow> pystr list \<Rightarrow> pystr \<Rightarrow> bool" where
  "should_forward lower keywords message_text =
     (if keywords \<noteq> []
      then list_ex (\<lambda>keyword. py_in (lower keyword) (lower message_text)) keywords
      else True)"

section \<open>Persistence schema (\<open>models.py\<close>)\<close>

text \<open>
  The three tables. A \<open>DateTime\<close> is a number of seconds. The \<open>String\<close> column
  \<open>session_id\<close> of the source renders the start time to the second
  (\<open>bot_%Y%m%d_%H%M%S\<close>); the model keeps that time itself, which identifies the same
  sessions. A table is the list of its rows in insertion order, and the integer primary
  key of a row is its position. Fields shared by several classes carry the class as a
  prefix (\<open>fm_\<close>, \<open>bs_\<close>, \<open>el_\<close>).
\<close>

type_synonym timestamp = nat

record ForwardedMessage =
  message_id :: int
  fm_source_chat :: "pystr option"
  fm_destination_chat :: "pystr option"
  message_text :: "pystr option"
  has_media :: bool
  media_type :: "pystr option"
  forwarded_at :: timestamp
  keywords_matched :: "pystr option"

record BotSession =
  bs_session_id :: timestamp
  bs_source_chat :: "pystr option"
  bs_destination_chat :: "pystr option"
  bs_keywords :: "pystr option"
  bs_forward_media :: bool
  bs_delay_seconds :: nat
  started_at :: timestamp
  stopped_at :: "timestamp option"
  is_active :: bool
  messages_received :: nat
  messages_forwarded :: nat
  last_activity :: timestamp

record ErrorLog =
  el_session_id :: "timestamp option"
  error_type :: pystr
  error_message :: pystr
  stack_trace :: "pystr option"
  occurred_at :: timestamp
  resolved :: bool

record Database =
  forwarded_messages :: "ForwardedMessage list"
  bot_sessions :: "BotSession list"
  error_logs :: "ErrorLog list"

text \<open>
  \<open>ForwardedMessage.to_dict\<close>: the dictionary has the keys of the row, so it is modelled
  by the same record; only \<open>message_text\<close> differs from the row.
  \<^verbatim>\<open>
  'message_text': self.message_text[:100] + '...'
      if self.message_text and len(self.message_text) > 100 else self.message_text
  \<close>
\<close>

definition to_dict :: "ForwardedMessage \<Rightarrow> ForwardedMessage" where
  "to_dict row =
     row\<lparr>message_text :=
       (case message_text row of
          None \<Rightarrow> None
        | Some t \<Rightarrow> if t \<noteq> [] \<and> length t > 100 then Some (take 100 t @ ascii ''...'') else Some t)\<rparr>"

section \<open>Exceptions and the outside world\<close>

text \<open>
  An exception carries its message (\<open>str(e)\<close>) and its formatted traceback. A function
  of the source either returns a value or raises, in both cases leaving a state behind;
  \<open>and_then\<close> is sequencing (an exception skips the rest) and \<open>try_except\<close> is
  \<open>try: ... except Exception as e: ...\<close>.
\<close>

datatype exn = Exception pystr pystr

fun str :: "exn \<Rightarrow> pystr" where
  "str (Exception msg tb) = msg"

fun format_exc :: "exn \<Rightarrow> pystr" where
  "format_exc (Exception msg tb) = tb"

datatype ('v, 's) outcome = Returns 'v 's | Raises exn 's

definition and_then :: "('v, 's) outcome \<Rightarrow> ('v \<Rightarrow> 's \<Rightarrow> ('w, 's) outcome) \<Rightarrow> ('w, 's) outcome" where
  "and_then r f = (case r of Returns v s \<Rightarrow> f v s | Raises e s \<Rightarrow> Raises e s)"

definition try_except :: "('v, 's) outcome \<Rightarrow> (exn \<Rightarrow> 's \<Rightarrow> ('v, 's) outcome) \<Rightarrow> ('v, 's) outcome" where
  "try_except body handler = (case body of Returns v s \<Rightarrow> Returns v s | Raises e s \<Rightarrow> handler e s)"

text \<open>The state a call leaves behind, and whether the call returned.\<close>

fun state_after :: "('v, 's) outcome \<Rightarrow> 's" where
  "state_after (Returns v s) = s"
| "state_after (Raises x s) = s"

fun returned :: "('v, 's) outcome \<Rightarrow> bool" where
  "returned (Returns v s) = True"
| "returned (Raises x s) = False"

text \<open>
  What the surroundings decide during one call: the clock (one reading for the call;
  local time and UTC are not told apart), whether the calls into the
  messaging client (\<open>start\<close>, \<open>get_entity\<close>, \<open>forward_messages\<close>, \<open>disconnect\<close>) and
  the commit and the queries of the storage engine return or raise, and whether the
  stored credential is still authorized.
\<close>

record env =
  now :: timestamp
  start_raises :: "exn option"
  is_user_authorized :: bool
  get_entity_raises :: "exn option"
  forward_raises :: "exn option"
  commit_raises :: "exn option"
  disconnect_raises :: "exn option"
  query_raises :: "exn option"

text \<open>An inbound message: its identifier, its text and the class name of its media.\<close>

record message =
  msg_id :: int
  msg_text :: "pystr option"
  media :: "pystr option"

datatype log_line = Info pystr | Error pystr

text \<open>
  The state of the process outside the forwarder object: the global \<open>database\<close>
  (\<open>None\<close> when its initialisation failed), the \<open>forward_messages\<close> calls issued to the
  client and those of them that returned, and the lines written to \<open>logger\<close>.
\<close>

record Process =
  database :: "Database option"
  forward_calls :: "message list"
  delivered :: "message list"
  logger :: "log_line list"

text \<open>
  The storage engine is a transactional row store: a commit that returns applies the
  pending changes, a commit that raises leaves the stored rows as they were (the pending
  changes are rolled back when the application context is left). \<open>commit_raises\<close>
  stands for any failure of the engine during the transaction.
\<close>

definition commit :: "exn option \<Rightarrow> Database \<Rightarrow> Database \<Rightarrow> (unit, Database) outcome" where
  "commit raises stored pending =
     (case raises of None \<Rightarrow> Returns () pending | Some e \<Rightarrow> Raises e stored)"

section \<open>Forwarder session (\<open>TelegramAutoForwarder\<close>)\<close>

text \<open>
  \<open>self.db_session\<close> holds the \<open>BotSession\<close> object: \<open>Transient\<close> while it was
  constructed but never stored, \<open>Persisted i\<close> once it is row \<open>i\<close> of \<open>bot_sessions\<close>.

  The object is created and committed inside the application context that
  \<open>_create_db_session\<close> opens (\<open>with app.app_context()\<close>), and the session of that
  context is removed when the context ends. From then on a stored object is detached
  from every session, with its attributes expired by the commit, and an object whose
  insert failed never received the defaults of its columns. Reading
  \<open>messages_forwarded\<close> through the object therefore raises in either state
  (\<open>attribute_read_raises\<close>), and an attribute assigned through it stays in the object:
  the transaction of a later context, which starts on a session of its own, does not
  carry it to the stored row.
\<close>

datatype row_ref = Transient | Persisted nat

fun attribute_read_raises :: "row_ref \<Rightarrow> exn" where
  "attribute_read_raises (Persisted i) =
     Exception (ascii ''Instance <BotSession> is not bound to a Session; attribute refresh operation cannot proceed'') []"
| "attribute_read_raises Transient =
     Exception (ascii ''unsupported operand type(s) for +=: NoneType and int'') []"

record Stats =
  st_messages_received :: nat
  st_messages_forwarded :: nat
  last_message_time :: "timestamp option"
  start_time :: "timestamp option"
  errors :: "(timestamp \<times> pystr) list"

datatype TelegramClient = TelegramClient (connected: bool)

record TelegramAutoForwarder =
  api_id :: "int option"
  api_hash :: "pystr option"
  phone :: "pystr option"
  source_chat :: "pystr option"
  destination_chat :: "pystr option"
  keywords_list :: "pystr list"
  forward_media :: bool
  delay_seconds :: nat
  client :: "TelegramClient option"
  authenticated :: bool
  running :: bool
  session_id :: timestamp
  db_session :: "row_ref option"
  stats :: Stats

type_synonym state = "TelegramAutoForwarder \<times> Process"

text \<open>\<open>sep.join(parts)\<close>.\<close>

fun join :: "pystr \<Rightarrow> pystr list \<Rightarrow> pystr" where
  "join sep [] = []"
| "join sep [x] = x"
| "join sep (x # y # ys) = x @ sep @ join sep (y # ys)"

text \<open>
  \<open>_create_db_session\<close>. The object is assigned to \<open>self.db_session\<close> before it is
  stored. The column \<open>session_id\<close> is declared unique: the commit raises when a row
  with the same identifier is stored already.
\<close>

definition new_BotSession :: "timestamp \<Rightarrow> TelegramAutoForwarder \<Rightarrow> BotSession" where
  "new_BotSession t self =
     \<lparr>bs_session_id = session_id self,
      bs_source_chat = source_chat self,
      bs_destination_chat = destination_chat self,
      bs_keywords = (if keywords_list self \<noteq> [] then Some (join (ascii '','') (keywords_list self)) else None),
      bs_forward_media = forward_media self,
      bs_delay_seconds = delay_seconds self,
      started_at = t,
      stopped_at = None,
      is_active = True,
      messages_received = 0,
      messages_forwarded = 0,
      last_activity = t\<rparr>"

definition insert_raises :: "exn option \<Rightarrow> Database \<Rightarrow> timestamp \<Rightarrow> exn option" where
  "insert_raises raises d sid =
     (if sid \<in> set (map bs_session_id (bot_sessions d))
      then Some (Exception (ascii ''UNIQUE constraint failed: bot_sessions.session_id'') [])
      else raises)"

definition create_db_session_body :: "env \<Rightarrow> state \<Rightarrow> (unit, state) outcome" where
  "create_db_session_body e s =
     (case s of (self, p) \<Rightarrow>
        (case database p of
           None \<Rightarrow> Returns () (self, p)
         | Some d \<Rightarrow>
             (let self1 = self\<lparr>db_session := Some Transient\<rparr> in
              case commit (insert_raises (commit_raises e) d (session_id self1)) d
                     (d\<lparr>bot_sessions := bot_sessions d @ [new_BotSession (now e) self1]\<rparr>) of
                Returns _ d' \<Rightarrow>
                  Returns () (self1\<lparr>db_session := Some (Persisted (length (bot_sessions d)))\<rparr>,
                           p\<lparr>database := Some d'\<rparr>)
              | Raises x d' \<Rightarrow> Raises x (self1, p))))"

definition create_db_session :: "env \<Rightarrow> state \<Rightarrow> (unit, state) outcome" where
  "create_db_session e s =
     try_except (create_db_session_body e s)
       (\<lambda>x (self, p). Returns () (self,
          p\<lparr>logger := logger p @ [Error (ascii ''Failed to create database session: '' @ str x)]\<rparr>))"

text \<open>
  \<open>_log_forwarded_message(event, matched_keywords)\<close>. The row of the message is added
  to the session of the context; then, when \<open>self.db_session\<close> holds an object, the
  increment reads \<open>messages_forwarded\<close> through it and raises before the commit is
  reached, and the row that was added is discarded with the context.
  \<^verbatim>\<open>
  db.session.add(forwarded_msg)
  if self.db_session:
      self.db_session.messages_forwarded += 1
      self.db_session.last_activity = datetime.utcnow()
  db.session.commit()
  \<close>
\<close>

definition new_ForwardedMessage ::
  "(pystr \<Rightarrow> pystr) \<Rightarrow> timestamp \<Rightarrow> TelegramAutoForwarder \<Rightarrow> message \<Rightarrow> bool \<Rightarrow> ForwardedMessage" where
  "new_ForwardedMessage lower t self m matched_keywords =
     (let text = or_empty (msg_text m);
          matched = (if matched_keywords \<and> keywords_list self \<noteq> []
                     then filter (\<lambda>kw. py_in (lower kw) (lower text)) (keywords_list self)
                     else [])
      in \<lparr>message_id = msg_id m,
          fm_source_chat = source_chat self,
          fm_destination_chat = destination_chat self,
          message_text = Some (take 1000 text),
          has_media = (media m \<noteq> None),
          media_type = media m,
          forwarded_at = t,
          keywords_matched = (if matched \<noteq> [] then Some (join (ascii '','') matched) else None)\<rparr>)"

definition log_forwarded_message_body ::
  "(pystr \<Rightarrow> pystr) \<Rightarrow> env \<Rightarrow> message \<Rightarrow> bool \<Rightarrow> state \<Rightarrow> (unit, state) outcome" where
  "log_forwarded_message_body lower e m matched_keywords s =
     (case s of (self, p) \<Rightarrow>
        (case database p of
           None \<Rightarrow> Returns () (self, p)
         | Some d \<Rightarrow>
             (case db_session self of
                Some ref \<Rightarrow> Raises (attribute_read_raises ref) (self, p)
              | None \<Rightarrow>
                  (case commit (commit_raises e) d
                          (d\<lparr>forwarded_messages :=
                               forwarded_messages d @ [new_ForwardedMessage lower (now e) self m matched_keywords]\<rparr>) of
                     Returns _ d' \<Rightarrow> Returns () (self, p\<lparr>database := Some d'\<rparr>)
                   | Raises x d' \<Rightarrow> Raises x (self, p)))))"

definition log_forwarded_message ::
  "(pystr \<Rightarrow> pystr) \<Rightarrow> env \<Rightarrow> message \<Rightarrow> bool \<Rightarrow> state \<Rightarrow> (unit, state) outcome" where
  "log_forwarded_message lower e m matched_keywords s =
     try_except (log_forwarded_message_body lower e m matched_keywords s)
       (\<lambda>x (self, p). Returns () (self,
          p\<lparr>logger := logger p @ [Error (ascii ''Failed to log forwarded message: '' @ str x)]\<rparr>))"

text \<open>\<open>_log_error(error_type, error_message, stack_trace)\<close>.\<close>

definition log_error_body :: "env \<Rightarrow> pystr \<Rightarrow> pystr \<Rightarrow> pystr option \<Rightarrow> state \<Rightarrow> (unit, state) outcome" where
  "log_error_body e etype emsg trace s =
     (case s of (self, p) \<Rightarrow>
        (case database p of
           None \<Rightarrow> Returns () (self, p)
         | Some d \<Rightarrow>
             (case commit (commit_raises e) d
                     (d\<lparr>error_logs := error_logs d @
                          [\<lparr>el_session_id = Some (session_id self),
                            error_type = etype,
                            error_message = emsg,
                            stack_trace = trace,
                            occurred_at = now e,
                            resolved = False\<rparr>]\<rparr>) of
                Returns _ d' \<Rightarrow> Returns () (self, p\<lparr>database := Some d'\<rparr>)
              | Raises x d' \<Rightarrow> Raises x (self, p))))"

definition log_error :: "env \<Rightarrow> pystr \<Rightarrow> pystr \<Rightarrow> pystr option \<Rightarrow> state \<Rightarrow> (unit, state) outcome" where
  "log_error e etype emsg trace s =
     try_except (log_error_body e etype emsg trace s)
       (\<lambda>x (self, p). Returns () (self,
          p\<lparr>logger := logger p @ [Error (ascii ''Failed to log error to database: '' @ str x)]\<rparr>))"

text \<open>
  \<open>client.forward_messages(dest_entity, event.message)\<close>: the call is issued, then it
  returns or raises as the surroundings decide.
\<close>

definition forward_messages :: "env \<Rightarrow> message \<Rightarrow> state \<Rightarrow> (unit, state) outcome" where
  "forward_messages e m s =
     (case s of (self, p) \<Rightarrow>
        (let p1 = p\<lparr>forward_calls := forward_calls p @ [m]\<rparr> in
         case forward_raises e of
           None \<Rightarrow> Returns () (self, p1\<lparr>delivered := delivered p1 @ [m]\<rparr>)
         | Some x \<Rightarrow> Raises x (self, p1)))"

text \<open>The counters and the error list of \<open>self.stats\<close>.\<close>

definition count_received :: "timestamp \<Rightarrow> TelegramAutoForwarder \<Rightarrow> TelegramAutoForwarder" where
  "count_received t self =
     self\<lparr>stats := (stats self)\<lparr>st_messages_received := st_messages_received (stats self) + 1,
                                 last_message_time := Some t\<rparr>\<rparr>"

definition count_forwarded :: "TelegramAutoForwarder \<Rightarrow> TelegramAutoForwarder" where
  "count_forwarded self =
     self\<lparr>stats := (stats self)\<lparr>st_messages_forwarded := st_messages_forwarded (stats self) + 1\<rparr>\<rparr>"

definition append_error :: "timestamp \<Rightarrow> pystr \<Rightarrow> TelegramAutoForwarder \<Rightarrow> TelegramAutoForwarder" where
  "append_error t error_msg self =
     self\<lparr>stats := (stats self)\<lparr>errors := errors (stats self) @ [(t, error_msg)]\<rparr>\<rparr>"

text \<open>
  \<open>message_handler(event)\<close>, the body of its \<open>try\<close> first. The delay
  (\<open>asyncio.sleep\<close>) changes nothing of the state and is left out.
  \<^verbatim>\<open>
  if self.client:
      if self.forward_media and event.message.media:
          await self.client.forward_messages(dest_entity, event.message)
      elif not event.message.media:
          await self.client.forward_messages(dest_entity, event.message)
      self.stats['messages_forwarded'] += 1
      await self._log_forwarded_message(event, should_forward)
      logger.info(...)
  \<close>
\<close>

definition message_handler_body :: "(pystr \<Rightarrow> pystr) \<Rightarrow> env \<Rightarrow> message \<Rightarrow> state \<Rightarrow> (unit, state) outcome" where
  "message_handler_body lower e m s =
     (case s of (self, p) \<Rightarrow>
        (let self1 = count_received (now e) self;
             message_text = or_empty (msg_text m)
         in if should_forward lower (keywords_list self1) message_text
            then (if client self1 \<noteq> None
                  then and_then
                         (if forward_media self1 \<and> media m \<noteq> None then forward_messages e m (self1, p)
                          else if media m = None then forward_messages e m (self1, p)
                          else Returns () (self1, p))
                         (\<lambda>_ (self2, p2).
                            and_then
                              (log_forwarded_message lower e m True (count_forwarded self2, p2))
                              (\<lambda>_ (self3, p3).
                                 Returns () (self3, p3\<lparr>logger := logger p3 @ [Info (ascii ''Forwarded message'')]\<rparr>)))
                  else Returns () (self1, p))
            else Returns () (self1, p)))"

definition message_handler :: "(pystr \<Rightarrow> pystr) \<Rightarrow> env \<Rightarrow> message \<Rightarrow> state \<Rightarrow> (unit, state) outcome" where
  "message_handler lower e m s =
     try_except (message_handler_body lower e m s)
       (\<lambda>x (self, p).
          (let error_msg = ascii ''Error forwarding message: '' @ str x;
               p1 = p\<lparr>logger := logger p @ [Error error_msg]\<rparr>
           in and_then (log_error e (ascii ''forwarding'') error_msg (Some (format_exc x)) (self, p1))
                (\<lambda>_ (self2, p2). Returns () (append_error (now e) error_msg self2, p2))))"

text \<open>
  The client delivers the events of a run one after the other; each event meets its own
  surroundings. An exception that left the handler would end the run there.
\<close>

fun handle_events :: "(pystr \<Rightarrow> pystr) \<Rightarrow> (env \<times> message) list \<Rightarrow> state \<Rightarrow> (unit, state) outcome" where
  "handle_events lower [] s = Returns () s"
| "handle_events lower ((e, m) # evs) s = and_then (message_handler lower e m s) (\<lambda>_. handle_events lower evs)"

text \<open>
  \<open>stop_forwarding\<close>. The two assignments go to the session object and stay there; the
  commit is that of the session of the new context, which holds no object, so it has
  nothing to write. The \<open>disconnect\<close> of the client comes after the \<open>try\<close>.
  \<^verbatim>\<open>
  if database and self.db_session:
      with app.app_context():
          self.db_session.stopped_at = datetime.utcnow()
          self.db_session.is_active = False
          db.session.commit()
  \<close>
\<close>

definition stop_forwarding_body :: "env \<Rightarrow> state \<Rightarrow> (unit, state) outcome" where
  "stop_forwarding_body e s =
     (case s of (self, p) \<Rightarrow>
        (case (database p, db_session self) of
           (Some d, Some ref) \<Rightarrow>
             (case commit (commit_raises e) d d of
                Returns _ d' \<Rightarrow> Returns () (self, p)
              | Raises x d' \<Rightarrow> Raises x (self, p))
         | _ \<Rightarrow> Returns () (self, p)))"

definition disconnect :: "env \<Rightarrow> state \<Rightarrow> (unit, state) outcome" where
  "disconnect e s =
     (case s of (self, p) \<Rightarrow>
        (case disconnect_raises e of
           None \<Rightarrow> Returns () (self\<lparr>client := Some (TelegramClient False)\<rparr>, p)
         | Some x \<Rightarrow> Raises x (self, p)))"

definition stop_forwarding :: "env \<Rightarrow> state \<Rightarrow> (unit, state) outcome" where
  "stop_forwarding e s =
     (case s of (self, p) \<Rightarrow>
        and_then
          (try_except (stop_forwarding_body e (self\<lparr>running := False\<rparr>, p))
             (\<lambda>x (self1, p1). Returns () (self1,
                p1\<lparr>logger := logger p1 @ [Error (ascii ''Failed to update database session: '' @ str x)]\<rparr>)))
          (\<lambda>_ (self2, p2). if client self2 \<noteq> None then disconnect e (self2, p2) else Returns () (self2, p2)))"

text \<open>
  \<open>__init__\<close> reads the configuration from the environment of the process. The
  variables are taken as parsed: \<open>KEYWORDS\<close> after \<open>_parse_keywords\<close>, \<open>FORWARD_MEDIA\<close>
  as the boolean and \<open>DELAY_SECONDS\<close> as the number the source computes from them.
  \<open>int(api_id_str)\<close> raises on a value that is not a number.
\<close>

datatype api_id_var = Unset | Not_a_number pystr | Number int

record config =
  TELEGRAM_API_ID :: api_id_var
  TELEGRAM_API_HASH :: "pystr option"
  TELEGRAM_PHONE :: "pystr option"
  SOURCE_CHAT :: "pystr option"
  DESTINATION_CHAT :: "pystr option"
  KEYWORDS :: "pystr list"
  FORWARD_MEDIA :: bool
  DELAY_SECONDS :: nat

definition new_TelegramAutoForwarder :: "config \<Rightarrow> timestamp \<Rightarrow> exn + TelegramAutoForwarder" where
  "new_TelegramAutoForwarder cfg t =
     (case TELEGRAM_API_ID cfg of
        Not_a_number v \<Rightarrow> Inl (Exception (ascii ''invalid literal for int() with base 10: '' @ v) [])
      | v \<Rightarrow>
          Inr \<lparr>api_id = (case v of Number n \<Rightarrow> Some n | _ \<Rightarrow> None),
               api_hash = TELEGRAM_API_HASH cfg,
               phone = TELEGRAM_PHONE cfg,
               source_chat = SOURCE_CHAT cfg,
               destination_chat = DESTINATION_CHAT cfg,
               keywords_list = KEYWORDS cfg,
               forward_media = FORWARD_MEDIA cfg,
               delay_seconds = DELAY_SECONDS cfg,
               client = None,
               authenticated = False,
               running = False,
               session_id = t,
               db_session = None,
               stats = \<lparr>st_messages_received = 0, st_messages_forwarded = 0,
                         last_message_time = None, start_time = None, errors = []\<rparr>\<rparr>)"

text \<open>Truth values of Python: \<open>None\<close>, the empty string and zero are false.\<close>

definition truthy_str :: "pystr option \<Rightarrow> bool" where
  "truthy_str v = (case v of None \<Rightarrow> False | Some s \<Rightarrow> s \<noteq> [])"

definition truthy_int :: "int option \<Rightarrow> bool" where
  "truthy_int v = (case v of None \<Rightarrow> False | Some n \<Rightarrow> n \<noteq> 0)"

text \<open>The dictionaries \<open>{'success': True, 'message': ...}\<close> and \<open>{'success': False, 'error': ...}\<close>.\<close>

datatype reply = Success pystr | Failure pystr

text \<open>
  \<open>initialize\<close>. The choice of the session file reads the file system only and is left
  out; \<open>client.start\<close> and \<open>client.is_user_authorized\<close> are one call into the client.
\<close>

definition initialize :: "env \<Rightarrow> state \<Rightarrow> (reply, state) outcome" where
  "initialize e s =
     try_except
       (case s of (self, p) \<Rightarrow>
          if \<not> (truthy_int (api_id self) \<and> truthy_str (api_hash self) \<and> truthy_str (phone self))
          then Returns (Failure (ascii ''Missing required environment variables: TELEGRAM_API_ID, TELEGRAM_API_HASH, TELEGRAM_PHONE'')) (self, p)
          else (let self1 = self\<lparr>client := Some (TelegramClient False)\<rparr> in
                case start_raises e of
                  Some x \<Rightarrow> Raises x (self1, p)
                | None \<Rightarrow>
                    (let self2 = self1\<lparr>client := Some (TelegramClient True)\<rparr> in
                     if is_user_authorized e
                     then Returns (Success (ascii ''Successfully authenticated with existing session''))
                            (self2\<lparr>authenticated := True\<rparr>,
                             p\<lparr>logger := logger p @ [Info (ascii ''Successfully authenticated with existing session'')]\<rparr>)
                     else Returns (Failure (ascii ''Session expired or invalid. Run setup_auth.py to re-authenticate.''))
                            (self2, p))))
       (\<lambda>x (self, p).
          (let error_msg = ascii ''Failed to initialize Telegram client: '' @ str x;
               p1 = p\<lparr>logger := logger p @ [Error error_msg]\<rparr>
           in and_then (log_error e (ascii ''initialization'') error_msg (Some (format_exc x)) (self, p1))
                (\<lambda>_ s'. Returns (Failure error_msg) s')))"

text \<open>
  \<open>start_forwarding\<close> up to the point where it suspends in
  \<open>client.run_until_disconnected()\<close>: the result \<open>Listening\<close> stands for the suspended
  call, \<open>Done r\<close> for a call that returned the dictionary \<open>r\<close>. Registering the handler
  changes no state; the events it receives are those of \<open>handle_events\<close>.
\<close>

datatype run_result = Listening | Done reply

definition start_forwarding :: "env \<Rightarrow> state \<Rightarrow> (run_result, state) outcome" where
  "start_forwarding e s =
     try_except
       (and_then
          (case s of (self, p) \<Rightarrow>
             if client self = None \<or> \<not> authenticated self then initialize e (self, p)
             else Returns (Success []) (self, p))
          (\<lambda>init_result (self1, p1).
             case init_result of
               Failure msg \<Rightarrow> Returns (Done (Failure msg)) (self1, p1)
             | Success _ \<Rightarrow>
                 if \<not> (truthy_str (source_chat self1) \<and> truthy_str (destination_chat self1))
                 then Returns (Done (Failure (ascii ''SOURCE_CHAT and DESTINATION_CHAT must be configured''))) (self1, p1)
                 else
                   (case get_entity_raises e of
                      Some x \<Rightarrow> Returns (Done (Failure (ascii ''Failed to get chat entities: '' @ str x))) (self1, p1)
                    | None \<Rightarrow>
                        (let p2 = p1\<lparr>logger := logger p1 @ [Info (ascii ''Successfully connected to chats'')]\<rparr>;
                             self2 = self1\<lparr>running := True,
                                          stats := (stats self1)\<lparr>start_time := Some (now e)\<rparr>\<rparr>
                         in and_then (create_db_session e (self2, p2))
                              (\<lambda>_ (self3, p3).
                                 (let p4 = p3\<lparr>logger := logger p3 @ [Info (ascii ''Started forwarding'')]\<rparr> in
                                  if client self3 \<noteq> None then Returns Listening (self3, p4)
                                  else Returns (Done (Success (ascii ''Forwarding started successfully''))) (self3, p4)))))))
       (\<lambda>x (self, p).
          (let error_msg = ascii ''Failed to start forwarding: '' @ str x;
               p1 = p\<lparr>logger := logger p @ [Error error_msg]\<rparr>
           in and_then (log_error e (ascii ''startup'') error_msg (Some (format_exc x)) (self, p1))
                (\<lambda>_ s'. Returns (Done (Failure error_msg)) s')))"

section \<open>Control surface (the routes \<open>/api/start\<close> and \<open>/api/stop\<close>)\<close>

text \<open>
  The globals \<open>bot_instance\<close> and \<open>bot_running\<close>, the state of the process, and the
  forwarders held by the threads that are suspended in \<open>run_until_disconnected\<close>.
\<close>

record World =
  process :: Process
  bot_instance :: "TelegramAutoForwarder option"
  bot_running :: bool
  threads :: "TelegramAutoForwarder list"

text \<open>
  \<open>run_bot_async\<close>, the body of the thread.
  \<^verbatim>\<open>
  def run_bot_async():
      global bot_instance, bot_running
      async def main():
          global bot_running
          try:
              bot_instance = TelegramAutoForwarder()
              bot_running = True
              result = await bot_instance.start_forwarding()
              logger.info(f"Bot result: {result}")
          except Exception as e:
              logger.error(f"Bot error: {e}")
              bot_running = False
      asyncio.run(main())
  \<close>
  \<open>main\<close> declares only \<open>bot_running\<close> global, and a \<open>global\<close> declaration of the
  enclosing function does not reach into a nested function: the assignment in \<open>main\<close>
  binds a local variable \<open>bot_instance\<close>, and the global of that name keeps its value.
  The forwarder therefore lives in the thread only.
\<close>

definition run_bot_async :: "config \<Rightarrow> env \<Rightarrow> World \<Rightarrow> World" where
  "run_bot_async cfg e w =
     (case new_TelegramAutoForwarder cfg (now e) of
        Inl x \<Rightarrow>
          w\<lparr>process := (process w)\<lparr>logger := logger (process w) @ [Error (ascii ''Bot error: '' @ str x)]\<rparr>,
            bot_running := False\<rparr>
      | Inr local_bot_instance \<Rightarrow>
          (case start_forwarding e (local_bot_instance, process w) of
             Returns Listening (self, p) \<Rightarrow>
               w\<lparr>process := p, bot_running := True, threads := threads w @ [self]\<rparr>
           | Returns (Done r) (self, p) \<Rightarrow>
               w\<lparr>process := p\<lparr>logger := logger p @ [Info (ascii ''Bot result'')]\<rparr>, bot_running := True\<rparr>
           | Raises x (self, p) \<Rightarrow>
               w\<lparr>process := p\<lparr>logger := logger p @ [Error (ascii ''Bot error: '' @ str x)]\<rparr>,
                 bot_running := False\<rparr>))"

text \<open>
  \<open>start_bot\<close> starts the thread and answers two seconds later. The requests are taken
  one at a time, and the thread is taken to have reached its suspension point (or its
  end) when the request answers.
\<close>

definition start_bot :: "config \<Rightarrow> env \<Rightarrow> World \<Rightarrow> (reply, World) outcome" where
  "start_bot cfg e w =
     (if bot_running w then Returns (Failure (ascii ''Bot is already running'')) w
      else Returns (Success (ascii ''Bot start initiated. Check status for details.'')) (run_bot_async cfg e w))"

text \<open>
  \<^verbatim>\<open>
  if bot_instance:
      asyncio.run(bot_instance.stop_forwarding())
  bot_running = False
  \<close>
\<close>

definition stop_bot :: "env \<Rightarrow> World \<Rightarrow> (reply, World) outcome" where
  "stop_bot e w =
     and_then
       (case bot_instance w of
          Some self \<Rightarrow>
            (case stop_forwarding e (self, process w) of
               Returns _ (self', p') \<Rightarrow> Returns () (w\<lparr>bot_instance := Some self', process := p'\<rparr>)
             | Raises x (self', p') \<Rightarrow> Raises x (w\<lparr>bot_instance := Some self', process := p'\<rparr>))
        | None \<Rightarrow> Returns () w)
       (\<lambda>_ w1. Returns (Success (ascii ''Bot stopped successfully'')) (w1\<lparr>bot_running := False\<rparr>))"

text \<open>A sequence of operator requests; a request that raised leaves the process serving.\<close>

datatype call = Start env | Stop env

fun request :: "config \<Rightarrow> call \<Rightarrow> World \<Rightarrow> (reply, World) outcome" where
  "request cfg (Start e) w = start_bot cfg e w"
| "request cfg (Stop e) w = stop_bot e w"

fun run_calls :: "config \<Rightarrow> call list \<Rightarrow> World \<Rightarrow> World" where
  "run_calls cfg [] w = w"
| "run_calls cfg (c # cs) w = run_calls cfg cs (state_after (request cfg c w))"

section \<open>Dashboard queries\<close>

text \<open>
  A route answers with a dictionary, or with an error and status 500.
  \<open>order_by(column.desc())\<close> sorts by descending time; the engine leaves the order of
  rows of equal time open, and the model puts the row stored later first.
\<close>

datatype 'a response = Ok_200 'a | Error_500 pystr

definition order_by_desc :: "('a \<Rightarrow> timestamp) \<Rightarrow> 'a list \<Rightarrow> 'a list" where
  "order_by_desc column rows = rev (sort_key column rows)"

record messages_page =
  messages :: "ForwardedMessage list"
  total :: nat

text \<open>
  \<open>get_forwarded_messages\<close>, with the query argument \<open>limit\<close> as the route reads it:
  50 when it is absent or not an integer. An engine either refuses a negative limit
  (the query raises) or takes it as no limit.
  \<^verbatim>\<open>
  limit = request.args.get('limit', 50, type=int)
  messages = ForwardedMessage.query.order_by(ForwardedMessage.forwarded_at.desc()).limit(limit).all()
  return jsonify({'messages': [msg.to_dict() for msg in messages], 'total': len(messages)})
  \<close>
\<close>

definition get_forwarded_messages :: "env \<Rightarrow> int option \<Rightarrow> Process \<Rightarrow> messages_page response" where
  "get_forwarded_messages e limit_arg p =
     (case database p of
        None \<Rightarrow> Error_500 (ascii ''Database not available'')
      | Some d \<Rightarrow>
          (case query_raises e of
             Some x \<Rightarrow> Error_500 (str x)
           | None \<Rightarrow>
               (let limit = (case limit_arg of None \<Rightarrow> 50 | Some n \<Rightarrow> n);
                    ordered = order_by_desc forwarded_at (forwarded_messages d);
                    msgs = (if limit < 0 then ordered else take (nat limit) ordered)
                in Ok_200 \<lparr>messages = map to_dict msgs, total = length msgs\<rparr>)))"

record db_stats =
  total_messages_forwarded :: nat
  total_sessions :: nat
  active_sessions :: nat
  total_errors :: nat
  unresolved_errors :: nat
  messages_last_24h :: nat

definition get_database_stats :: "env \<Rightarrow> Process \<Rightarrow> db_stats response" where
  "get_database_stats e p =
     (case database p of
        None \<Rightarrow> Error_500 (ascii ''Database not available'')
      | Some d \<Rightarrow>
          (case query_raises e of
             Some x \<Rightarrow> Error_500 (str x)
           | None \<Rightarrow>
               Ok_200
                 \<lparr>total_messages_forwarded = length (forwarded_messages d),
                  total_sessions = length (bot_sessions d),
                  active_sessions = length (filter is_active (bot_sessions d)),
                  total_errors = length (error_logs d),
                  unresolved_errors = length (filter (\<lambda>r. \<not> resolved r) (error_logs d)),
                  messages_last_24h =
                    length (filter (\<lambda>r. int (now e) - 86400 \<le> int (forwarded_at r)) (forwarded_messages d))\<rparr>))"

section \<open>Sample data\<close>

text \<open>
  Concrete inputs on which the properties below are run: surroundings in which every
  call returns, a complete configuration with the keyword \<open>sale\<close> and media forwarding
  switched off, a running forwarder that owns the only session row, a text message and
  a photo message that both match the keyword, a message of 1500 characters, a table of
  two forwarded messages stored at the times 10 and 20, and an idle process with empty
  tables.
\<close>

definition sample_exn :: exn where
  "sample_exn = Exception (ascii ''connection lost'') []"

definition env_at :: "timestamp \<Rightarrow> env" where
  "env_at t =
     \<lparr>now = t, start_raises = None, is_user_authorized = True, get_entity_raises = None,
      forward_raises = None, commit_raises = None, disconnect_raises = None, query_raises = None\<rparr>"

definition sample_config :: config where
  "sample_config =
     \<lparr>TELEGRAM_API_ID = Number 12345,
      TELEGRAM_API_HASH = Some (ascii ''0123abcd''),
      TELEGRAM_PHONE = Some (ascii ''+15550100''),
      SOURCE_CHAT = Some (ascii ''@source''),
      DESTINATION_CHAT = Some (ascii ''@destination''),
      KEYWORDS = [ascii ''sale''],
      FORWARD_MEDIA = False,
      DELAY_SECONDS = 2\<rparr>"

definition sample_bot :: TelegramAutoForwarder where
  "sample_bot =
     \<lparr>api_id = Some 12345,
      api_hash = Some (ascii ''0123abcd''),
      phone = Some (ascii ''+15550100''),
      source_chat = Some (ascii ''@source''),
      destination_chat = Some (ascii ''@destination''),
      keywords_list = [ascii ''sale''],
      forward_media = False,
      delay_seconds = 2,
      client = Some (TelegramClient True),
      authenticated = True,
      running = True,
      session_id = 100,
      db_session = Some (Persisted 0),
      stats = \<lparr>st_messages_received = 0, st_messages_forwarded = 0,
                last_message_time = None, start_time = Some 100, errors = []\<rparr>\<rparr>"

definition sample_database :: Database where
  "sample_database =
     \<lparr>forwarded_messages = [], bot_sessions = [new_BotSession 100 sample_bot], error_logs = []\<rparr>"

definition sample_process :: Process where
  "sample_process =
     \<lparr>database = Some sample_database, forward_calls = [], delivered = [], logger = []\<rparr>"

definition text_message :: message where
  "text_message = \<lparr>msg_id = 7, msg_text = Some (ascii ''Big Sale Today''), media = None\<rparr>"

definition photo_message :: message where
  "photo_message =
     \<lparr>msg_id = 8, msg_text = Some (ascii ''Big Sale Today''), media = Some (ascii ''MessageMediaPhoto'')\<rparr>"


definition sample_row :: "int \<Rightarrow> timestamp \<Rightarrow> ForwardedMessage" where
  "sample_row i t = new_ForwardedMessage lower_ascii t sample_bot (text_message\<lparr>msg_id := i\<rparr>) True"

definition two_rows_process :: Process where
  "two_rows_process =
     \<lparr>database = Some \<lparr>forwarded_messages = [sample_row 1 10, sample_row 2 20],
                        bot_sessions = [], error_logs = []\<rparr>,
      forward_calls = [], delivered = [], logger = []\<rparr>"

definition idle_world :: World where
  "idle_world =
     \<lparr>process = \<lparr>database = Some \<lparr>forwarded_messages = [], bot_sessions = [], error_logs = []\<rparr>,
                 forward_calls = [], delivered = [], logger = []\<rparr>,
      bot_instance = None, bot_running = False, threads = []\<rparr>"

section \<open>Properties of the keyword filter\<close>

lemma startswith_iff: "startswith s p \<longleftrightarrow> (\<exists>suf. s = p @ suf)"
  by (induction s p rule: startswith.induct) auto

lemma py_in_iff: "py_in needle s \<longleftrightarrow> (\<exists>pre suf. s = pre @ needle @ suf)"
proof (induction s)
  case Nil
  then show ?case by auto
next
  case (Cons c s)
  have "(\<exists>pre suf. c # s = pre @ needle @ suf) \<longleftrightarrow>
        (\<exists>suf. c # s = needle @ suf) \<or> (\<exists>pre suf. s = pre @ needle @ suf)"
  proof
    assume "\<exists>pre suf. c # s = pre @ needle @ suf"
    then obtain pre suf where eq: "c # s = pre @ needle @ suf" by blast
    show "(\<exists>suf. c # s = needle @ suf) \<or> (\<exists>pre suf. s = pre @ needle @ suf)"
    proof (cases pre)
      case Nil
      with eq show ?thesis by auto
    next
      case (Cons a pre')
      with eq have "s = pre' @ needle @ suf" by simp
      then show ?thesis by blast
    qed
  next
    assume "(\<exists>suf. c # s = needle @ suf) \<or> (\<exists>pre suf. s = pre @ needle @ suf)"
    then show "\<exists>pre suf. c # s = pre @ needle @ suf"
    proof
      assume "\<exists>suf. c # s = needle @ suf"
      then obtain suf where "c # s = [] @ needle @ suf" by auto
      then show ?thesis by blast
    next
      assume "\<exists>pre suf. s = pre @ needle @ suf"
      then obtain pre suf where "c # s = (c # pre) @ needle @ suf" by auto
      then show ?thesis by blast
    qed
  qed
  with Cons show ?case by (simp add: startswith_iff)
qed

lemma py_in_sublist: "py_in needle s \<longleftrightarrow> sublist needle s"
  by (simp add: py_in_iff sublist_def)

text \<open>
  C1. The filter lets a message through exactly when the keyword list is empty or some
  keyword, lowercased, occurs as a contiguous substring of the lowercased text. The
  statement holds for every text over code points and for every lowercasing function, so
  for Python's Unicode lowercasing in particular; the comparison sees only lowercased
  strings, which is what makes it case-insensitive.
\<close>

theorem should_forward_iff:
  "should_forward lower K T \<longleftrightarrow>
     K = [] \<or> (\<exists>k \<in> set K. \<exists>pre suf. lower T = pre @ lower k @ suf)"
  by (simp add: should_forward_def list_ex_iff py_in_iff)

text \<open>
  The scenarios of the specification: keyword \<open>sale\<close> against \<open>Big Sale Today\<close> and
  against \<open>No discounts\<close>, and the empty keyword list.
\<close>

theorem should_forward_iff_witness:
  "should_forward lower_ascii [ascii ''sale''] (ascii ''Big Sale Today'')
   \<and> \<not> should_forward lower_ascii [ascii ''sale''] (ascii ''No discounts'')
   \<and> should_forward lower_ascii [] (ascii ''No discounts'')"
proof -
  have "lower_ascii (ascii ''Big Sale Today'')
        = ascii ''big '' @ lower_ascii (ascii ''sale'') @ ascii '' today''"
    by (simp add: lower_ascii_def ascii_def)
  then have a: "should_forward lower_ascii [ascii ''sale''] (ascii ''Big Sale Today'')"
    using should_forward_iff [of lower_ascii "[ascii ''sale'']" "ascii ''Big Sale Today''"]
    by auto
  have b: "\<not> should_forward lower_ascii [ascii ''sale''] (ascii ''No discounts'')"
    by (simp add: should_forward_def lower_ascii_def ascii_def)
  have c: "should_forward lower_ascii [] (ascii ''No discounts'')"
    using should_forward_iff [of lower_ascii "[]" "ascii ''No discounts''"] by simp
  from a b c show ?thesis by simp
qed

section \<open>What the writers and the handler compute\<close>

lemma log_forwarded_message_eq:
  "log_forwarded_message lower e m b (self, p) =
     Returns () (self,
       case database p of
         None \<Rightarrow> p
       | Some d \<Rightarrow>
           (case db_session self of
              Some ref \<Rightarrow>
                p\<lparr>logger := logger p @
                   [Error (ascii ''Failed to log forwarded message: '' @ str (attribute_read_raises ref))]\<rparr>
            | None \<Rightarrow>
                (case commit_raises e of
                   None \<Rightarrow> p\<lparr>database := Some (d\<lparr>forwarded_messages :=
                             forwarded_messages d @ [new_ForwardedMessage lower (now e) self m b]\<rparr>)\<rparr>
                 | Some x \<Rightarrow> p\<lparr>logger := logger p @
                             [Error (ascii ''Failed to log forwarded message: '' @ str x)]\<rparr>)))"
  by (simp add: log_forwarded_message_def log_forwarded_message_body_def try_except_def commit_def
           split: option.splits)

lemma log_error_eq:
  "log_error e t msg tr (self, p) =
     Returns () (self,
       case database p of
         None \<Rightarrow> p
       | Some d \<Rightarrow>
           (case commit_raises e of
              None \<Rightarrow> p\<lparr>database := Some (d\<lparr>error_logs := error_logs d @
                          [\<lparr>el_session_id = Some (session_id self), error_type = t, error_message = msg,
                            stack_trace = tr, occurred_at = now e, resolved = False\<rparr>]\<rparr>)\<rparr>
            | Some x \<Rightarrow> p\<lparr>logger := logger p @ [Error (ascii ''Failed to log error to database: '' @ str x)]\<rparr>))"
  by (simp add: log_error_def log_error_body_def try_except_def commit_def split: option.splits)

lemma create_db_session_eq:
  "create_db_session e (self, p) =
     (case database p of
        None \<Rightarrow> Returns () (self, p)
      | Some d \<Rightarrow>
          (case insert_raises (commit_raises e) d (session_id self) of
             None \<Rightarrow>
               Returns () (self\<lparr>db_session := Some (Persisted (length (bot_sessions d)))\<rparr>,
                  p\<lparr>database := Some (d\<lparr>bot_sessions := bot_sessions d @ [new_BotSession (now e) self]\<rparr>)\<rparr>)
           | Some x \<Rightarrow>
               Returns () (self\<lparr>db_session := Some Transient\<rparr>,
                  p\<lparr>logger := logger p @ [Error (ascii ''Failed to create database session: '' @ str x)]\<rparr>)))"
  by (simp add: create_db_session_def create_db_session_body_def try_except_def commit_def
        new_BotSession_def Let_def split: option.splits)

lemma new_ForwardedMessage_stats [simp]:
  "new_ForwardedMessage lower t (count_forwarded self) m b = new_ForwardedMessage lower t self m b"
  "new_ForwardedMessage lower t (count_received t' self) m b = new_ForwardedMessage lower t self m b"
  "new_ForwardedMessage lower t (self\<lparr>forward_media := f\<rparr>) m b = new_ForwardedMessage lower t self m b"
  by (simp_all add: new_ForwardedMessage_def count_forwarded_def count_received_def Let_def)

lemmas handler_defs = message_handler_def message_handler_body_def try_except_def and_then_def
  forward_messages_def log_forwarded_message_eq log_error_eq Let_def

lemmas counter_defs = count_received_def count_forwarded_def append_error_def

lemma message_handler_returns: "\<exists>self' p'. message_handler lower e m (self, p) = Returns () (self', p')"
  by (simp add: handler_defs split: option.splits)

lemma sample_filter [simp]:
  "should_forward lower_ascii [ascii ''sale''] (ascii ''Big Sale Today'')"
  by (simp add: should_forward_def lower_ascii_def ascii_def)

section \<open>The sample data, field by field\<close>

lemma or_empty_simps [simp]: "or_empty None = []" "or_empty (Some t) = t"
  by (simp_all add: or_empty_def)

lemma sample_bot_fields [simp]:
  "client sample_bot = Some (TelegramClient True)"
  "forward_media sample_bot = False"
  "db_session sample_bot = Some (Persisted 0)"
  "keywords_list sample_bot = [ascii ''sale'']"
  "stats sample_bot = \<lparr>st_messages_received = 0, st_messages_forwarded = 0,
                last_message_time = None, start_time = Some 100, errors = []\<rparr>"
  "session_id sample_bot = 100"
  by (simp_all add: sample_bot_def)

lemma sample_message_fields [simp]:
  "media text_message = None" "media photo_message = Some (ascii ''MessageMediaPhoto'')"
  "msg_id text_message = 7" "msg_id photo_message = 8"
  "msg_text text_message = Some (ascii ''Big Sale Today'')"
  "msg_text photo_message = Some (ascii ''Big Sale Today'')"
  by (simp_all add: text_message_def photo_message_def)

lemma sample_process_fields [simp]:
  "database sample_process = Some sample_database" "forward_calls sample_process = []"
  "delivered sample_process = []" "logger sample_process = []"
  by (simp_all add: sample_process_def)

lemma env_at_fields [simp]:
  "now (env_at t) = t" "forward_raises (env_at t) = None" "commit_raises (env_at t) = None"
  "disconnect_raises (env_at t) = None" "query_raises (env_at t) = None"
  "start_raises (env_at t) = None" "get_entity_raises (env_at t) = None" "is_user_authorized (env_at t)"
  by (simp_all add: env_at_def)

section \<open>The media flag\<close>

text \<open>
  C4, as the specification has it: every message that passes the keyword filter is
  forwarded, whatever the flag \<open>forward_media\<close> and whether or not the message carries
  media. The handler does not do that: with the flag off, a photo that matches the
  keyword causes no call of \<open>forward_messages\<close> at all.
\<close>

theorem forward_media_flag_counterexample:
  "should_forward lower_ascii (keywords_list sample_bot) (or_empty (msg_text photo_message))
   \<and> forward_calls (snd (state_after (message_handler lower_ascii (env_at 101) photo_message (sample_bot, sample_process)))) = []
   \<and> delivered (snd (state_after (message_handler lower_ascii (env_at 101) photo_message (sample_bot, sample_process)))) = []"
  by (simp add: handler_defs counter_defs)

text \<open>
  C4, amended: a message that passes the keyword filter causes a call of
  \<open>forward_messages\<close> exactly when it carries no media or the flag \<open>forward_media\<close> is
  on, and it reaches the destination exactly when, in addition, that call returns. The
  flag is honoured: a message with media is never forwarded while the flag is off.
\<close>

theorem forward_call_iff:
  assumes "should_forward lower (keywords_list self) (or_empty (msg_text m))"
    and "client self \<noteq> None"
  shows "forward_calls (snd (state_after (message_handler lower e m (self, p)))) =
           (if media m = None \<or> forward_media self then forward_calls p @ [m] else forward_calls p)
       \<and> delivered (snd (state_after (message_handler lower e m (self, p)))) =
           (if (media m = None \<or> forward_media self) \<and> forward_raises e = None
            then delivered p @ [m] else delivered p)"
  using assms by (auto simp add: handler_defs counter_defs split: option.splits)

theorem forward_call_iff_witness:
  "forward_calls (snd (state_after (message_handler lower_ascii (env_at 101) text_message (sample_bot, sample_process)))) = [text_message]
   \<and> delivered (snd (state_after (message_handler lower_ascii (env_at 101) text_message (sample_bot, sample_process)))) = [text_message]
   \<and> forward_calls (snd (state_after (message_handler lower_ascii (env_at 101) photo_message (sample_bot, sample_process)))) = []"
  using forward_call_iff [of lower_ascii sample_bot text_message "env_at 101" sample_process]
    forward_call_iff [of lower_ascii sample_bot photo_message "env_at 101" sample_process]
  by simp

section \<open>Rows written by the handler\<close>

lemma new_ForwardedMessage_stats_update [simp]:
  "new_ForwardedMessage lower t (self\<lparr>stats := st\<rparr>) m b = new_ForwardedMessage lower t self m b"
  by (simp add: new_ForwardedMessage_def Let_def)

lemma new_ForwardedMessage_fields [simp]:
  "message_id (new_ForwardedMessage lower t self m b) = msg_id m"
  "forwarded_at (new_ForwardedMessage lower t self m b) = t"
  "has_media (new_ForwardedMessage lower t self m b) = (media m \<noteq> None)"
  "media_type (new_ForwardedMessage lower t self m b) = media m"
  "message_text (new_ForwardedMessage lower t self m b) = Some (take 1000 (or_empty (msg_text m)))"
  by (simp_all add: new_ForwardedMessage_def Let_def)

text \<open>
  No event changes a stored session row, and a forwarder that holds a session object
  stores no forwarded message either. After a start that created the session, the
  forwarder holds such an object for the rest of its run.
\<close>

lemma handler_keeps_session_rows:
  "map_option bot_sessions (database (snd (state_after (message_handler lower e m (self, p)))))
     = map_option bot_sessions (database p)"
  by (auto simp add: handler_defs counter_defs split: option.splits)

lemma session_holder_stores_no_message:
  "db_session self \<noteq> None \<Longrightarrow>
   map_option forwarded_messages (database (snd (state_after (message_handler lower e m (self, p)))))
     = map_option forwarded_messages (database p)"
  by (auto simp add: handler_defs counter_defs split: option.splits)

section \<open>Bookkeeping of a forward\<close>

text \<open>
  C3. The specification asks that a forward that succeeds append exactly one row to
  \<open>forwarded_messages\<close> and add one to the forwarded count of the owning session row.
  On a healthy run (database available, every call of the client and every commit
  returning, the forwarder owning the stored session row) the handler delivers the
  message and counts it in memory, but \<open>_log_forwarded_message\<close> raises at the increment
  through the session object, swallows the exception and stores nothing: the database
  is as it was, with no forwarded message and the count of the session row still 0,
  one error line on the logger, and the line that reports the forward after it.
\<close>

theorem forward_stores_no_record:
  "delivered (snd (state_after (message_handler lower_ascii (env_at 101) text_message (sample_bot, sample_process))))
     = [text_message]
   \<and> st_messages_forwarded (stats (fst (state_after
        (message_handler lower_ascii (env_at 101) text_message (sample_bot, sample_process))))) = 1
   \<and> database (snd (state_after (message_handler lower_ascii (env_at 101) text_message (sample_bot, sample_process))))
     = Some sample_database
   \<and> forwarded_messages sample_database = []
   \<and> map messages_forwarded (bot_sessions sample_database) = [0]
   \<and> logger (snd (state_after (message_handler lower_ascii (env_at 101) text_message (sample_bot, sample_process))))
     = [Error (ascii ''Failed to log forwarded message: '' @ str (attribute_read_raises (Persisted 0))),
        Info (ascii ''Forwarded message'')]"
  by (simp add: handler_defs counter_defs sample_database_def new_BotSession_def)

text \<open>
  The other half of the property holds as it is written: when the forward raises while
  the database is available and the commit returns, nothing is delivered, exactly one
  row of type \<open>forwarding\<close> that names the session is appended to \<open>error_logs\<close>, and
  neither the forwarded messages nor any session row nor the in-memory forwarded count
  change.
\<close>

lemma failed_forward_logs_one_error:
  assumes "should_forward lower (keywords_list self) (or_empty (msg_text m))"
    and "client self \<noteq> None"
    and "media m = None \<or> forward_media self"
    and "database p = Some d"
    and "commit_raises e = None"
    and "forward_raises e = Some x"
  shows "\<exists>self' p' d' r.
           message_handler lower e m (self, p) = Returns () (self', p')
         \<and> delivered p' = delivered p
         \<and> st_messages_forwarded (stats self') = st_messages_forwarded (stats self)
         \<and> database p' = Some d'
         \<and> error_logs d' = error_logs d @ [r]
         \<and> error_type r = ascii ''forwarding''
         \<and> el_session_id r = Some (session_id self)
         \<and> forwarded_messages d' = forwarded_messages d
         \<and> bot_sessions d' = bot_sessions d"
  using assms by (auto simp add: handler_defs counter_defs split: option.splits)

section \<open>Media that is counted but not forwarded\<close>

text \<open>
  A message with media that passes the keyword filter while \<open>forward_media\<close> is off
  causes no call of \<open>forward_messages\<close> and nothing is delivered; the handler still
  returns normally, counts the message as forwarded in memory, and goes on to
  \<open>_log_forwarded_message\<close>, so that the database and the counters end exactly as they
  do after a real forward of the same message (flag on, call returning).
\<close>

lemma suppressed_media_like_real_forward:
  assumes "should_forward lower (keywords_list self) (or_empty (msg_text m))"
    and "client self \<noteq> None"
    and "media m \<noteq> None"
    and "\<not> forward_media self"
  shows "\<exists>self' p'.
           message_handler lower e m (self, p) = Returns () (self', p')
         \<and> forward_calls p' = forward_calls p
         \<and> delivered p' = delivered p
         \<and> st_messages_forwarded (stats self') = st_messages_forwarded (stats self) + 1
         \<and> errors (stats self') = errors (stats self)
         \<and> database p' =
             database (snd (state_after (message_handler lower (e\<lparr>forward_raises := None\<rparr>) m
                                            (self\<lparr>forward_media := True\<rparr>, p))))
         \<and> stats self' =
             stats (fst (state_after (message_handler lower (e\<lparr>forward_raises := None\<rparr>) m
                                            (self\<lparr>forward_media := True\<rparr>, p))))"
  using assms by (auto simp add: handler_defs counter_defs split: option.splits)

text \<open>
  C9. The implicit property has it that for such a message a row is still appended to
  \<open>forwarded_messages\<close> and the forwarded count of the owning session row still goes up,
  as for a real forward. No call is issued and the in-memory count goes up, as the
  property says; but on a healthy run the write raises at the increment through the
  session object (the defect of C3) and nothing is stored: no row is appended and the
  count of the session row is still 0.
\<close>

theorem suppressed_media_stores_no_record:
  "forward_calls (snd (state_after (message_handler lower_ascii (env_at 101) photo_message (sample_bot, sample_process))))
     = []
   \<and> delivered (snd (state_after (message_handler lower_ascii (env_at 101) photo_message (sample_bot, sample_process))))
     = []
   \<and> st_messages_forwarded (stats (fst (state_after
        (message_handler lower_ascii (env_at 101) photo_message (sample_bot, sample_process))))) = 1
   \<and> database (snd (state_after (message_handler lower_ascii (env_at 101) photo_message (sample_bot, sample_process))))
     = Some sample_database
   \<and> forwarded_messages sample_database = []
   \<and> map messages_forwarded (bot_sessions sample_database) = [0]"
  by (simp add: handler_defs counter_defs sample_database_def new_BotSession_def)

section \<open>Failures of the persistence layer\<close>

lemma handle_events_returns:
  "\<exists>self' p'. handle_events lower evs (self, p) = Returns () (self', p')"
proof (induction evs arbitrary: self p)
  case Nil
  then show ?case by simp
next
  case (Cons ev evs)
  obtain e m where ev: "ev = (e, m)" by (cases ev)
  obtain self1 p1 where "message_handler lower e m (self, p) = Returns () (self1, p1)"
    using message_handler_returns by blast
  with Cons [of self1 p1] ev show ?case by (simp add: and_then_def)
qed

text \<open>
  C6. None of the three writers (\<open>_create_db_session\<close>, \<open>_log_forwarded_message\<close>,
  \<open>_log_error\<close>) ever raises, nor does the handler of one message or of a whole sequence
  of messages, whatever the storage engine and the session object do. Whenever a write
  fails, the writer returns with the stored rows as they were and with exactly one more
  line of level error on the logger, which carries the message of the exception: for
  \<open>_log_forwarded_message\<close> that of the read through the session object when the
  forwarder holds one, and that of the commit otherwise; for \<open>_log_error\<close> and
  \<open>_create_db_session\<close> that of the commit or of the violated uniqueness. And the
  failure of a write never turns into a failure of message handling: when the forward
  itself did not raise, the handler records no error, in memory or in \<open>error_logs\<close>.
\<close>

theorem persistence_failures_are_swallowed:
  "returned (create_db_session e (self, p))
   \<and> returned (log_forwarded_message lower e m b (self, p))
   \<and> returned (log_error e t msg tr (self, p))
   \<and> returned (message_handler lower e m (self, p))
   \<and> returned (handle_events lower evs (self, p))
   \<and> (\<forall>d ref. database p = Some d \<and> db_session self = Some ref \<longrightarrow>
          log_forwarded_message lower e m b (self, p) =
            Returns () (self, p\<lparr>logger := logger p @
               [Error (ascii ''Failed to log forwarded message: '' @ str (attribute_read_raises ref))]\<rparr>))
   \<and> (\<forall>d x. database p = Some d \<and> db_session self = None \<and> commit_raises e = Some x \<longrightarrow>
          log_forwarded_message lower e m b (self, p) =
            Returns () (self, p\<lparr>logger := logger p @ [Error (ascii ''Failed to log forwarded message: '' @ str x)]\<rparr>))
   \<and> (\<forall>d x. database p = Some d \<and> commit_raises e = Some x \<longrightarrow>
          log_error e t msg tr (self, p) =
            Returns () (self, p\<lparr>logger := logger p @ [Error (ascii ''Failed to log error to database: '' @ str x)]\<rparr>)
        \<and> (\<exists>y. create_db_session e (self, p) =
            Returns () (self\<lparr>db_session := Some Transient\<rparr>,
                        p\<lparr>logger := logger p @ [Error (ascii ''Failed to create database session: '' @ str y)]\<rparr>)))
   \<and> (forward_raises e = None \<longrightarrow>
          errors (stats (fst (state_after (message_handler lower e m (self, p))))) = errors (stats self)
        \<and> map_option error_logs (database (snd (state_after (message_handler lower e m (self, p)))))
            = map_option error_logs (database p))"
proof -
  have a: "returned (create_db_session e (self, p))"
    by (simp add: create_db_session_eq split: option.splits)
  have b: "returned (log_forwarded_message lower e m b (self, p))"
    by (simp add: log_forwarded_message_eq)
  have c: "returned (log_error e t msg tr (self, p))"
    by (simp add: log_error_eq)
  have d: "returned (message_handler lower e m (self, p))"
    using message_handler_returns [of lower e m self p] by auto
  have f: "returned (handle_events lower evs (self, p))"
    using handle_events_returns [of lower evs self p] by auto
  have g1: "\<forall>d ref. database p = Some d \<and> db_session self = Some ref \<longrightarrow>
          log_forwarded_message lower e m b (self, p) =
            Returns () (self, p\<lparr>logger := logger p @
               [Error (ascii ''Failed to log forwarded message: '' @ str (attribute_read_raises ref))]\<rparr>)"
    by (simp add: log_forwarded_message_eq)
  have g2: "\<forall>d x. database p = Some d \<and> db_session self = None \<and> commit_raises e = Some x \<longrightarrow>
          log_forwarded_message lower e m b (self, p) =
            Returns () (self, p\<lparr>logger := logger p @ [Error (ascii ''Failed to log forwarded message: '' @ str x)]\<rparr>)"
    by (simp add: log_forwarded_message_eq)
  have g3: "\<exists>y. create_db_session e (self, p) =
            Returns () (self\<lparr>db_session := Some Transient\<rparr>,
                        p\<lparr>logger := logger p @ [Error (ascii ''Failed to create database session: '' @ str y)]\<rparr>)"
    if db: "database p = Some d" and cr: "commit_raises e = Some x" for d x
  proof -
    have "insert_raises (commit_raises e) d (session_id self) \<noteq> None"
      using cr by (simp add: insert_raises_def)
    then obtain y where "insert_raises (commit_raises e) d (session_id self) = Some y"
      by blast
    with db have "create_db_session e (self, p) =
            Returns () (self\<lparr>db_session := Some Transient\<rparr>,
                        p\<lparr>logger := logger p @ [Error (ascii ''Failed to create database session: '' @ str y)]\<rparr>)"
      by (simp add: create_db_session_eq)
    then show ?thesis by blast
  qed
  have g: "\<forall>d x. database p = Some d \<and> commit_raises e = Some x \<longrightarrow>
          log_error e t msg tr (self, p) =
            Returns () (self, p\<lparr>logger := logger p @ [Error (ascii ''Failed to log error to database: '' @ str x)]\<rparr>)
        \<and> (\<exists>y. create_db_session e (self, p) =
            Returns () (self\<lparr>db_session := Some Transient\<rparr>,
                        p\<lparr>logger := logger p @ [Error (ascii ''Failed to create database session: '' @ str y)]\<rparr>))"
    using g3 by (simp add: log_error_eq)
  have h: "forward_raises e = None \<longrightarrow>
          errors (stats (fst (state_after (message_handler lower e m (self, p))))) = errors (stats self)
        \<and> map_option error_logs (database (snd (state_after (message_handler lower e m (self, p)))))
            = map_option error_logs (database p)"
    by (auto simp add: handler_defs counter_defs split: option.splits)
  from a b c d f g1 g2 g h show ?thesis by blast
qed

theorem persistence_failures_are_swallowed_witness:
  "returned (message_handler lower_ascii (env_at 101) text_message (sample_bot, sample_process))
   \<and> log_forwarded_message lower_ascii (env_at 101) text_message True (sample_bot, sample_process) =
       Returns () (sample_bot, sample_process\<lparr>logger :=
          [Error (ascii ''Failed to log forwarded message: '' @ str (attribute_read_raises (Persisted 0)))]\<rparr>)
   \<and> errors (stats (fst (state_after (message_handler lower_ascii (env_at 101) text_message
        (sample_bot, sample_process))))) = []
   \<and> log_forwarded_message lower_ascii ((env_at 101)\<lparr>commit_raises := Some sample_exn\<rparr>) text_message True
        (sample_bot\<lparr>db_session := None\<rparr>, sample_process) =
       Returns () (sample_bot\<lparr>db_session := None\<rparr>, sample_process\<lparr>logger :=
          [Error (ascii ''Failed to log forwarded message: '' @ ascii ''connection lost'')]\<rparr>)
   \<and> log_error ((env_at 101)\<lparr>commit_raises := Some sample_exn\<rparr>) (ascii ''forwarding'') (ascii ''timeout'') None
        (sample_bot, sample_process) =
       Returns () (sample_bot, sample_process\<lparr>logger :=
          [Error (ascii ''Failed to log error to database: '' @ ascii ''connection lost'')]\<rparr>)"
  using persistence_failures_are_swallowed
    [where e = "env_at 101" and self = sample_bot
       and p = sample_process and lower = lower_ascii and m = text_message and b = True
       and t = "ascii ''forwarding''" and msg = "ascii ''timeout''" and tr = None and evs = "[]"]
    persistence_failures_are_swallowed
    [where e = "(env_at 101)\<lparr>commit_raises := Some sample_exn\<rparr>" and self = "sample_bot\<lparr>db_session := None\<rparr>"
       and p = sample_process and lower = lower_ascii and m = text_message and b = True
       and t = "ascii ''forwarding''" and msg = "ascii ''timeout''" and tr = None and evs = "[]"]
    persistence_failures_are_swallowed
    [where e = "(env_at 101)\<lparr>commit_raises := Some sample_exn\<rparr>" and self = sample_bot
       and p = sample_process and lower = lower_ascii and m = text_message and b = True
       and t = "ascii ''forwarding''" and msg = "ascii ''timeout''" and tr = None and evs = "[]"]
  by (simp add: sample_exn_def)

section \<open>The column \<open>messages_received\<close>\<close>

lemma message_handler_received:
  assumes "message_handler lower e m (self, p) = Returns () (self', p')"
  shows "map_option (\<lambda>d. map messages_received (bot_sessions d)) (database p')
           = map_option (\<lambda>d. map messages_received (bot_sessions d)) (database p)
       \<and> st_messages_received (stats self') = st_messages_received (stats self) + 1"
  using assms by (auto simp add: handler_defs counter_defs split: option.splits if_splits)

lemma handle_events_received:
  "\<exists>self' p'. handle_events lower evs (self, p) = Returns () (self', p')
     \<and> map_option (\<lambda>d. map messages_received (bot_sessions d)) (database p')
           = map_option (\<lambda>d. map messages_received (bot_sessions d)) (database p)
     \<and> st_messages_received (stats self') = st_messages_received (stats self) + length evs"
proof (induction evs arbitrary: self p)
  case Nil
  then show ?case by simp
next
  case (Cons ev evs)
  obtain e m where ev: "ev = (e, m)" by (cases ev)
  obtain self1 p1 where r: "message_handler lower e m (self, p) = Returns () (self1, p1)"
    using message_handler_returns by blast
  note one = message_handler_received [OF r]
  from Cons [of self1 p1] obtain self' p' where
    rest: "handle_events lower evs (self1, p1) = Returns () (self', p')"
    and col: "map_option (\<lambda>d. map messages_received (bot_sessions d)) (database p')
           = map_option (\<lambda>d. map messages_received (bot_sessions d)) (database p1)"
    and cnt: "st_messages_received (stats self') = st_messages_received (stats self1) + length evs"
    by blast
  have "handle_events lower (ev # evs) (self, p) = Returns () (self', p')"
    using ev r rest by (simp add: and_then_def)
  with one col cnt show ?case by simp
qed

text \<open>
  C10. A session row is stored with \<open>messages_received = 0\<close>, and no inbound event
  changes that column of any stored row: after the session is created and any sequence
  of events is handled, under any surroundings, the column of every older row is what
  it was and that of the session's own row is still 0, while the in-memory counter of
  the forwarder has gone up by the number of events.
\<close>

theorem messages_received_column_stays_zero:
  assumes "database p0 = Some d0"
    and "insert_raises (commit_raises e0) d0 (session_id self0) = None"
  shows "\<exists>self1 p1 self2 p2 d2.
           create_db_session e0 (self0, p0) = Returns () (self1, p1)
         \<and> db_session self1 = Some (Persisted (length (bot_sessions d0)))
         \<and> handle_events lower evs (self1, p1) = Returns () (self2, p2)
         \<and> database p2 = Some d2
         \<and> map messages_received (bot_sessions d2) = map messages_received (bot_sessions d0) @ [0]
         \<and> messages_received (bot_sessions d2 ! length (bot_sessions d0)) = 0
         \<and> st_messages_received (stats self2) = st_messages_received (stats self0) + length evs"
proof -
  let ?self1 = "self0\<lparr>db_session := Some (Persisted (length (bot_sessions d0)))\<rparr>"
  let ?p1 = "p0\<lparr>database := Some (d0\<lparr>bot_sessions := bot_sessions d0 @ [new_BotSession (now e0) self0]\<rparr>)\<rparr>"
  have c: "create_db_session e0 (self0, p0) = Returns () (?self1, ?p1)"
    using assms by (simp add: create_db_session_eq)
  from handle_events_received [of lower evs ?self1 ?p1]
  obtain self2 p2 where r: "handle_events lower evs (?self1, ?p1) = Returns () (self2, p2)"
    and col: "map_option (\<lambda>d. map messages_received (bot_sessions d)) (database p2)
           = map_option (\<lambda>d. map messages_received (bot_sessions d)) (database ?p1)"
    and cnt: "st_messages_received (stats self2) = st_messages_received (stats ?self1) + length evs"
    by blast
  from col obtain d2 where d2: "database p2 = Some d2"
    and m: "map messages_received (bot_sessions d2) = map messages_received (bot_sessions d0) @ [0]"
    by (auto simp add: new_BotSession_def)
  have "length (bot_sessions d2) = length (bot_sessions d0) + 1"
    using m by (metis length_map length_append_singleton Suc_eq_plus1)
  then have "messages_received (bot_sessions d2 ! length (bot_sessions d0)) =
        (map messages_received (bot_sessions d2)) ! length (bot_sessions d0)"
    by simp
  with m have z: "messages_received (bot_sessions d2 ! length (bot_sessions d0)) = 0"
    by (simp add: nth_append)
  from c r d2 m z cnt show ?thesis by auto
qed

theorem messages_received_column_stays_zero_witness:
  "map messages_received (bot_sessions (the (database (snd (state_after
      (handle_events lower_ascii [(env_at 101, text_message), (env_at 102, photo_message)]
         (state_after (create_db_session (env_at 100) (sample_bot, process idle_world))))))))) = [0]
   \<and> st_messages_received (stats (fst (state_after
      (handle_events lower_ascii [(env_at 101, text_message), (env_at 102, photo_message)]
         (state_after (create_db_session (env_at 100) (sample_bot, process idle_world))))))) = 2"
proof -
  let ?d0 = "\<lparr>forwarded_messages = [], bot_sessions = [], error_logs = []\<rparr>"
  let ?evs = "[(env_at 101, text_message), (env_at 102, photo_message)]"
  have a: "database (process idle_world) = Some ?d0"
    by (simp add: idle_world_def)
  have b: "insert_raises (commit_raises (env_at 100)) ?d0 (session_id sample_bot) = None"
    by (simp add: insert_raises_def)
  from messages_received_column_stays_zero [OF a b, of lower_ascii ?evs]
  obtain self1 p1 self2 p2 d2 where
    c: "create_db_session (env_at 100) (sample_bot, process idle_world) = Returns () (self1, p1)"
    and r: "handle_events lower_ascii ?evs (self1, p1) = Returns () (self2, p2)"
    and d: "database p2 = Some d2"
    and col: "map messages_received (bot_sessions d2) = map messages_received (bot_sessions ?d0) @ [0]"
    and cnt: "st_messages_received (stats self2) = st_messages_received (stats sample_bot) + length ?evs"
    by blast
  from c r d col cnt show ?thesis by simp
qed

section \<open>The messages route of the dashboard\<close>

lemma to_dict_fields [simp]:
  "message_id (to_dict r) = message_id r"
  "forwarded_at (to_dict r) = forwarded_at r"
  by (simp_all add: to_dict_def)


lemma set_order_by_desc [simp]: "set (order_by_desc f rows) = set rows"
  by (simp add: order_by_desc_def)

lemma length_order_by_desc [simp]: "length (order_by_desc f rows) = length rows"
  by (simp add: order_by_desc_def)

lemma mset_order_by_desc [simp]: "mset (order_by_desc f rows) = mset rows"
  by (simp add: order_by_desc_def)

lemma descending_order_by_desc: "sorted (rev (map f (order_by_desc f rows)))"
  by (simp add: order_by_desc_def rev_map)



lemma take_drop_descending:
  assumes "sorted (rev (map f xs))"
  shows "\<forall>r \<in> set (take n xs). \<forall>r' \<in> set (drop n xs). f r' \<le> f r"
proof -
  have "xs = take n xs @ drop n xs" by simp
  then have "rev (map f xs) = rev (map f (drop n xs)) @ rev (map f (take n xs))"
    by (metis map_append rev_append)
  with assms have "sorted (rev (map f (drop n xs)) @ rev (map f (take n xs)))" by simp
  then show ?thesis by (auto simp add: sorted_append)
qed

lemma sorted_rev_take:
  assumes "sorted (rev ys)"
  shows "sorted (rev (take n ys))"
proof -
  have "rev ys = rev (drop n ys) @ rev (take n ys)"
    by (metis append_take_drop_id rev_append)
  with assms show ?thesis by (simp add: sorted_append)
qed

text \<open>
  C8, as the specification has it: the route returns the most recent \<open>N\<close> messages
  together with the total count of forwarded-message records. The value under \<open>total\<close>
  is \<open>len(messages)\<close>, the number of entries returned: on a table of two rows and
  \<open>limit=1\<close> it is 1, while the table (and the statistics route) count 2.
\<close>

theorem total_is_page_size_counterexample:
  "get_forwarded_messages (env_at 30) (Some 1) two_rows_process =
     Ok_200 \<lparr>messages = [to_dict (sample_row 2 20)], total = 1\<rparr>
   \<and> get_database_stats (env_at 30) two_rows_process =
     Ok_200 \<lparr>total_messages_forwarded = 2, total_sessions = 0, active_sessions = 0,
             total_errors = 0, unresolved_errors = 0, messages_last_24h = 2\<rparr>"
  by (simp add: get_forwarded_messages_def get_database_stats_def two_rows_process_def
        order_by_desc_def sample_row_def)

text \<open>
  C8, amended: with the database available and the query returning, the route with
  \<open>limit=N\<close> (\<open>N\<close> not negative) returns the first \<open>N\<close> rows of the table ordered by
  forwarding time descending, each as its dictionary: the entries are in descending
  order of time, the ordering is a permutation of the table, and no row left out is
  more recent than a row returned. The value \<open>total\<close> is the number of entries
  returned, the smaller of \<open>N\<close> and the number of rows, which is the count of all
  forwarded-message records only when the table has at most \<open>N\<close> rows.
\<close>

theorem messages_endpoint:
  assumes "database p = Some d"
    and "query_raises e = None"
  shows "\<exists>pg. get_forwarded_messages e (Some (int n)) p = Ok_200 pg
         \<and> messages pg = map to_dict (take n (order_by_desc forwarded_at (forwarded_messages d)))
         \<and> mset (order_by_desc forwarded_at (forwarded_messages d)) = mset (forwarded_messages d)
         \<and> sorted (rev (map forwarded_at (messages pg)))
         \<and> (\<forall>r \<in> set (take n (order_by_desc forwarded_at (forwarded_messages d))).
               \<forall>r' \<in> set (drop n (order_by_desc forwarded_at (forwarded_messages d))).
                 forwarded_at r' \<le> forwarded_at r)
         \<and> total pg = length (messages pg)
         \<and> total pg = min n (length (forwarded_messages d))"
proof -
  let ?ordered = "order_by_desc forwarded_at (forwarded_messages d)"
  let ?pg = "\<lparr>messages = map to_dict (take n ?ordered), total = length (take n ?ordered)\<rparr>"
  have g: "get_forwarded_messages e (Some (int n)) p = Ok_200 ?pg"
    using assms by (simp add: get_forwarded_messages_def Let_def)
  have "map forwarded_at (map to_dict (take n ?ordered)) = take n (map forwarded_at ?ordered)"
    by (simp add: take_map comp_def)
  then have s: "sorted (rev (map forwarded_at (messages ?pg)))"
    using sorted_rev_take [OF descending_order_by_desc,
        where n = n and f1 = forwarded_at and rows1 = "forwarded_messages d"]
    by simp
  note recent = take_drop_descending [OF descending_order_by_desc,
      where f = forwarded_at and rows1 = "forwarded_messages d" and n = n]
  from g s recent show ?thesis
    by (intro exI [of _ ?pg]) (simp add: min_def)
qed

theorem messages_endpoint_witness:
  "get_forwarded_messages (env_at 30) (Some 1) two_rows_process =
     Ok_200 \<lparr>messages = [to_dict (sample_row 2 20)], total = 1\<rparr>
   \<and> get_forwarded_messages (env_at 30) (Some 5) two_rows_process =
     Ok_200 \<lparr>messages = [to_dict (sample_row 2 20), to_dict (sample_row 1 10)], total = 2\<rparr>"
proof -
  let ?d = "\<lparr>forwarded_messages = [sample_row 1 10, sample_row 2 20], bot_sessions = [], error_logs = []\<rparr>"
  have a: "database two_rows_process = Some ?d" by (simp add: two_rows_process_def)
  have o: "order_by_desc forwarded_at [sample_row 1 10, sample_row 2 20] = [sample_row 2 20, sample_row 1 10]"
    by (simp add: order_by_desc_def sample_row_def)
  from messages_endpoint [OF a, of "env_at 30" 1] messages_endpoint [OF a, of "env_at 30" 5]
  show ?thesis by (auto simp add: o)
qed

section \<open>Start and stop requests\<close>

text \<open>
  The first start on the sample configuration, computed in full; a stop request that
  finds no global \<open>bot_instance\<close>; the global \<open>bot_instance\<close> after any sequence of
  requests; and a start issued while a run is going, which is refused and stores
  nothing, so that one session stays active.
\<close>

lemma ascii_nonempty [simp]: "ascii (c # cs) \<noteq> []" "ascii [] = []"
  by (simp_all add: ascii_def)

lemma truthy_simps [simp]:
  "truthy_str None = False" "truthy_str (Some s) = (s \<noteq> [])"
  "truthy_int None = False" "truthy_int (Some n) = (n \<noteq> 0)"
  by (simp_all add: truthy_str_def truthy_int_def)

lemmas start_defs = start_bot_def run_bot_async_def new_TelegramAutoForwarder_def
  start_forwarding_def initialize_def create_db_session_eq log_error_eq try_except_def and_then_def
  insert_raises_def Let_def

lemma first_start:
  "run_calls sample_config [Start (env_at 100)] idle_world =
     idle_world\<lparr>process := (process idle_world)\<lparr>
        database := Some \<lparr>forwarded_messages = [],
                           bot_sessions = [new_BotSession 100 (sample_bot\<lparr>db_session := None\<rparr>)],
                           error_logs = []\<rparr>,
        logger := [Info (ascii ''Successfully authenticated with existing session''),
                   Info (ascii ''Successfully connected to chats''),
                   Info (ascii ''Started forwarding'')]\<rparr>,
      bot_running := True,
      threads := [sample_bot]\<rparr>"
  by (simp add: start_defs sample_config_def idle_world_def sample_bot_def new_BotSession_def)

lemma stop_bot_without_instance:
  "bot_instance w = None \<Longrightarrow>
   stop_bot e w = Returns (Success (ascii ''Bot stopped successfully'')) (w\<lparr>bot_running := False\<rparr>)"
  by (simp add: stop_bot_def and_then_def)

lemma run_bot_async_instance [simp]: "bot_instance (run_bot_async cfg e w) = bot_instance w"
  by (simp add: run_bot_async_def split: sum.splits outcome.splits run_result.splits prod.splits)

lemma request_instance:
  "bot_instance w = None \<Longrightarrow> bot_instance (state_after (request cfg c w)) = None"
  by (cases c) (simp_all add: start_bot_def stop_bot_without_instance)

lemma global_bot_instance_never_assigned:
  "bot_instance w = None \<Longrightarrow> bot_instance (run_calls cfg cs w) = None"
  by (induction cs arbitrary: w) (simp_all add: request_instance)

lemma second_start_is_refused:
  "request sample_config (Start (env_at 200)) (run_calls sample_config [Start (env_at 100)] idle_world)
     = Returns (Failure (ascii ''Bot is already running''))
         (run_calls sample_config [Start (env_at 100)] idle_world)
   \<and> get_database_stats (env_at 250)
        (process (run_calls sample_config [Start (env_at 100), Start (env_at 200)] idle_world))
     = Ok_200 \<lparr>total_messages_forwarded = 0, total_sessions = 1, active_sessions = 1,
               total_errors = 0, unresolved_errors = 0, messages_last_24h = 0\<rparr>"
proof -
  have "run_calls sample_config [Start (env_at 100), Start (env_at 200)] idle_world
        = run_calls sample_config [Start (env_at 100)] idle_world"
    using first_start by (simp add: start_bot_def)
  then show ?thesis
    using first_start
    by (simp add: start_bot_def get_database_stats_def idle_world_def new_BotSession_def)
qed

text \<open>
  C2. The specification asks that at most one session row be active at any time,
  whatever the sequence of start and stop requests. The requests start, stop, start
  break it: \<open>stop_bot\<close> finalizes a run only through the global \<open>bot_instance\<close>, which
  \<open>main\<close> never assigns (it binds a local of that name), so the stop clears
  \<open>bot_running\<close> and leaves the first run going, its forwarder still \<open>running\<close> and its
  row still active with no stop time; the second start is then accepted and stores a
  second active row. The statistics route reports two active sessions.
\<close>

theorem restart_leaves_two_active_sessions:
  "get_database_stats (env_at 250)
     (process (run_calls sample_config [Start (env_at 100), Stop (env_at 150), Start (env_at 200)] idle_world))
     = Ok_200 \<lparr>total_messages_forwarded = 0, total_sessions = 2, active_sessions = 2,
               total_errors = 0, unresolved_errors = 0, messages_last_24h = 0\<rparr>
   \<and> map stopped_at (bot_sessions (the (database (process
        (run_calls sample_config [Start (env_at 100), Stop (env_at 150)] idle_world))))) = [None]
   \<and> map running (threads (run_calls sample_config [Start (env_at 100), Stop (env_at 150)] idle_world)) = [True]"
proof -
  let ?w1 = "run_calls sample_config [Start (env_at 100)] idle_world"
  have i: "bot_instance ?w1 = None"
    by (rule global_bot_instance_never_assigned) (simp add: idle_world_def)
  have s: "run_calls sample_config [Start (env_at 100), Stop (env_at 150)] idle_world = ?w1\<lparr>bot_running := False\<rparr>"
    using stop_bot_without_instance [OF i] by simp
  have "run_calls sample_config [Start (env_at 100), Stop (env_at 150), Start (env_at 200)] idle_world
        = state_after (start_bot sample_config (env_at 200) (?w1\<lparr>bot_running := False\<rparr>))"
    using stop_bot_without_instance [OF i] by simp
  then have a: "get_database_stats (env_at 250)
     (process (run_calls sample_config [Start (env_at 100), Stop (env_at 150), Start (env_at 200)] idle_world))
     = Ok_200 \<lparr>total_messages_forwarded = 0, total_sessions = 2, active_sessions = 2,
               total_errors = 0, unresolved_errors = 0, messages_last_24h = 0\<rparr>"
    by (simp add: first_start start_defs sample_config_def idle_world_def new_BotSession_def
          get_database_stats_def)
  have b: "map stopped_at (bot_sessions (the (database (process
        (run_calls sample_config [Start (env_at 100), Stop (env_at 150)] idle_world))))) = [None]"
    unfolding s first_start by (simp add: idle_world_def new_BotSession_def)
  have c: "map running (threads (run_calls sample_config [Start (env_at 100), Stop (env_at 150)] idle_world)) = [True]"
    unfolding s first_start by (simp add: idle_world_def sample_bot_def)
  from a b c show ?thesis by simp
qed

section \<open>Stopping a session\<close>

lemmas stop_defs = stop_forwarding_def stop_forwarding_body_def disconnect_def try_except_def
  and_then_def commit_def

text \<open>
  What holds of \<open>stop_forwarding\<close>: it returns whenever the \<open>disconnect\<close> of the client
  returns, so no failure of the persistence layer escapes it; it clears \<open>running\<close>; it
  never changes the database; and called twice in a row, the client disconnecting both
  times, it leaves the forwarder and the database as one call does.
\<close>

lemma stop_forwarding_returns:
  "disconnect_raises e = None \<Longrightarrow> returned (stop_forwarding e (self, p))"
  by (auto simp add: stop_defs split: option.splits)

lemma stop_forwarding_clears_running:
  "running (fst (state_after (stop_forwarding e (self, p)))) = False"
  by (auto simp add: stop_defs split: option.splits)

lemma stop_forwarding_keeps_database:
  "database (snd (state_after (stop_forwarding e (self, p)))) = database p"
  by (auto simp add: stop_defs split: option.splits)

lemma stop_forwarding_twice:
  "disconnect_raises e = None \<Longrightarrow> disconnect_raises e2 = None \<Longrightarrow>
   fst (state_after (and_then (stop_forwarding e (self, p)) (\<lambda>_. stop_forwarding e2)))
     = fst (state_after (stop_forwarding e2 (self, p)))
   \<and> database (snd (state_after (and_then (stop_forwarding e (self, p)) (\<lambda>_. stop_forwarding e2))))
     = database (snd (state_after (stop_forwarding e2 (self, p))))"
  by (cases "database p"; cases "db_session self"; cases "commit_raises e"; cases "commit_raises e2";
      cases "client self")
    (simp_all add: stop_defs)

text \<open>
  C5. The specification asks that stopping twice in a row leave the same terminal state
  as stopping once, with \<open>running\<close> false and the session row finalized (stop time set,
  not active), that stopping never raise, and that it be a no-op without an active
  session. The code is idempotent and clears \<open>running\<close>, but it does not reach the
  terminal state it is asked for: the stop time and the flag are assigned to the
  session object only, and the commit has nothing to write. After one call and after
  two the stored session row is still active and has no stop time.
\<close>

theorem stop_leaves_session_row_active:
  "returned (stop_forwarding (env_at 150) (sample_bot, sample_process))
   \<and> running (fst (state_after (stop_forwarding (env_at 150) (sample_bot, sample_process)))) = False
   \<and> database (snd (state_after (stop_forwarding (env_at 150) (sample_bot, sample_process))))
       = Some sample_database
   \<and> database (snd (state_after (and_then (stop_forwarding (env_at 150) (sample_bot, sample_process))
                                           (\<lambda>_. stop_forwarding (env_at 160)))))
       = Some sample_database
   \<and> map is_active (bot_sessions sample_database) = [True]
   \<and> map stopped_at (bot_sessions sample_database) = [None]"
  by (simp add: stop_defs sample_database_def new_BotSession_def)

end
